theory Spec2Isabelle
  imports Main "HOL-Library.AList"
begin

section \<open>JavaScript values\<close>

text \<open>
  The values a caller can hand to the client. Strings are carried as their UTF-8 bytes.
  A finite Number is carried by the text that ToString gives it (\<open>1\<close> is
  \<open>JNum ''1''\<close>), which is the only way this code ever looks at a number inside a
  parameter; NaN and the infinities are \<open>JNonFinite\<close> with their text. Arrays are never
  written to by the client and stay values. A plain object is a reference \<open>JRef a\<close>
  into a store of property lists, because the client writes to the object its caller
  passed in. A property list keeps the own enumerable string keys in the order in which
  \<open>Object.keys\<close> lists them.
\<close>

type_synonym addr = nat

datatype jsval =
    JUndefined
  | JNull
  | JBool bool
  | JNum string
  | JNonFinite string
  | JStr string
  | JArr "jsval list"
  | JRef addr

type_synonym object = "(string \<times> jsval) list"

type_synonym heap = "addr \<Rightarrow> object"

fun join_with :: "string \<Rightarrow> string list \<Rightarrow> string" where
  "join_with sep [] = []"
| "join_with sep [x] = x"
| "join_with sep (x # y # ys) = x @ sep @ join_with sep (y # ys)"

text \<open>
  ToString, as a template literal and \<open>Array.prototype.join\<close> apply it. Inside
  \<open>join\<close> an element that is \<open>undefined\<close> or \<open>null\<close> gives the empty string.
  \<open>array_join\<close> is only called on a value that passed \<open>isArray\<close>.
\<close>

fun toStr :: "jsval \<Rightarrow> string" where
  "toStr JUndefined = ''undefined''"
| "toStr JNull = ''null''"
| "toStr (JBool b) = (if b then ''true'' else ''false'')"
| "toStr (JNum s) = s"
| "toStr (JNonFinite s) = s"
| "toStr (JStr s) = s"
| "toStr (JArr xs) =
     join_with '','' (map (\<lambda>x. if x = JUndefined \<or> x = JNull then [] else toStr x) xs)"
| "toStr (JRef a) = ''[object Object]''"

definition array_join :: "jsval \<Rightarrow> string \<Rightarrow> string" where
  "array_join v sep =
     (case v of
        JArr xs \<Rightarrow>
          join_with sep (map (\<lambda>x. if x = JUndefined \<or> x = JNull then [] else toStr x) xs)
      | _ \<Rightarrow> [])"

text \<open>
  Property read \<open>v[k]\<close> and property write \<open>v.k = x\<close>. On a plain object the read
  gives the stored value or \<open>undefined\<close>, and the write replaces the value of an
  existing key in place or appends a new key at the end. The keys written by the client
  (\<open>vs_currency\<close>, \<open>ids\<close>, \<open>days\<close>) are not array indices, so they are enumerated in
  insertion order. Every read and write below sits behind an \<open>isObject\<close> check; on
  other values the read is given as \<open>undefined\<close> and the write as no change.
\<close>

definition getp :: "heap \<Rightarrow> jsval \<Rightarrow> string \<Rightarrow> jsval" where
  "getp h v k =
     (case v of
        JRef a \<Rightarrow> (case map_of (h a) k of None \<Rightarrow> JUndefined | Some x \<Rightarrow> x)
      | _ \<Rightarrow> JUndefined)"

definition setp :: "heap \<Rightarrow> jsval \<Rightarrow> string \<Rightarrow> jsval \<Rightarrow> heap" where
  "setp h v k x =
     (case v of
        JRef a \<Rightarrow> h(a := AList.update k x (h a))
      | _ \<Rightarrow> h)"

definition props :: "heap \<Rightarrow> jsval \<Rightarrow> object" where
  "props h v = (case v of JRef a \<Rightarrow> h a | _ \<Rightarrow> [])"

definition looseEqUndefined :: "jsval \<Rightarrow> bool" where
  "looseEqUndefined v = (v = JUndefined \<or> v = JNull)"

definition startsWith :: "string \<Rightarrow> string \<Rightarrow> bool" where
  "startsWith s t = (take (length t) s = t)"

text \<open>
  \<open>String.prototype.toUpperCase\<close> on the ASCII letters; other bytes stay, so a
  method name with letters outside ASCII is not covered. Every method of the client
  passes \<open>GET\<close>.
\<close>

definition toUpperCase :: "string \<Rightarrow> string" where
  "toUpperCase s =
     map (\<lambda>c. if 97 \<le> (of_char c :: nat) \<and> (of_char c :: nat) \<le> 122
               then char_of ((of_char c :: nat) - 32) else c) s"

section \<open>Node's querystring module\<close>

text \<open>
  \<open>querystring.escape\<close> keeps the letters, the digits and \<open>- _ . ! ~ * ' ( )\<close> and
  writes every other byte of the UTF-8 form as \<open>%XX\<close> with upper-case hexadecimal
  digits.
\<close>

definition unreserved :: "char \<Rightarrow> bool" where
  "unreserved c =
     (let n = (of_char c :: nat) in
        (48 \<le> n \<and> n \<le> 57) \<or> (65 \<le> n \<and> n \<le> 90) \<or> (97 \<le> n \<and> n \<le> 122) \<or>
        c \<in> set ''-_.!~*()'' \<or> n = 39)"

definition hexdigit :: "nat \<Rightarrow> char" where
  "hexdigit n = ''0123456789ABCDEF'' ! (n mod 16)"

definition escape_char :: "char \<Rightarrow> string" where
  "escape_char c =
     (if unreserved c then [c]
      else [CHR ''%'', hexdigit ((of_char c :: nat) div 16), hexdigit (of_char c :: nat)])"

definition qsEscape :: "string \<Rightarrow> string" where
  "qsEscape s = concat (map escape_char s)"

text \<open>
  \<open>stringifyPrimitive\<close> is the text \<open>querystring\<close> gives a value: a string is itself,
  a finite number its ToString, a boolean \<open>true\<close> or \<open>false\<close>, anything else empty.
  \<open>encodeStringified\<close> is that text escaped. (Node leaves a number below \<open>1e21\<close>
  unescaped; its text has digits, \<open>.\<close>, \<open>-\<close> and \<open>e\<close> only, which escaping keeps, and
  from \<open>1e21\<close> on the text has a \<open>+\<close> and is escaped.)
\<close>

fun stringifyPrimitive :: "jsval \<Rightarrow> string" where
  "stringifyPrimitive (JStr s) = s"
| "stringifyPrimitive (JNum s) = s"
| "stringifyPrimitive (JBool b) = (if b then ''true'' else ''false'')"
| "stringifyPrimitive _ = []"

definition encodeStringified :: "jsval \<Rightarrow> string" where
  "encodeStringified v = qsEscape (stringifyPrimitive v)"

text \<open>
  \<open>querystring.stringify\<close> walks the keys in order. A value that is an array gives
  one \<open>key=element\<close> field per element and none when it is empty; any other value
  gives one field. The fields are joined with \<open>&\<close>.
\<close>

definition stringify_field :: "string \<times> jsval \<Rightarrow> string list" where
  "stringify_field kv =
     (let ks = encodeStringified (JStr (fst kv)) @ ''='' in
        case snd kv of
          JArr vs \<Rightarrow> map (\<lambda>x. ks @ encodeStringified x) vs
        | v \<Rightarrow> [ks @ encodeStringified v])"

definition stringify_fields :: "object \<Rightarrow> string list" where
  "stringify_fields obj = concat (map stringify_field obj)"

definition querystring_stringify :: "object \<Rightarrow> string" where
  "querystring_stringify obj = join_with ''&'' (stringify_fields obj)"

section \<open>Helpers of the repository that the client calls\<close>

text \<open>
  \<open>helpers/utilities\<close> is not among the sources. Its checks are given the meaning the
  spec uses them with.
\<close>

text \<open>
  Modelled from the spec: \<open>Utils.isString\<close> is missing. A required identifier "must be
  a non-empty string", a currency defaults "when absent/not-a-string/empty": the check
  holds of the strings.
\<close>

definition isString :: "jsval \<Rightarrow> bool" where
  "isString v = (case v of JStr s \<Rightarrow> True | _ \<Rightarrow> False)"

text \<open>
  Modelled from the spec: \<open>Utils.isStringEmpty\<close> is missing. It holds of the empty
  string (the "empty" of "absent/not-a-string/empty").
\<close>

definition isStringEmpty :: "jsval \<Rightarrow> bool" where
  "isStringEmpty v = (case v of JStr s \<Rightarrow> s = [] | _ \<Rightarrow> False)"

text \<open>
  Modelled from the spec: \<open>Utils.isArray\<close> is missing. It holds when a value is "given
  as a sequence rather than a string".
\<close>

definition isArray :: "jsval \<Rightarrow> bool" where
  "isArray v = (case v of JArr xs \<Rightarrow> True | _ \<Rightarrow> False)"

text \<open>
  Modelled from the spec: \<open>Utils.isObject\<close> is missing. It holds when the parameters
  "are a plain key-value mapping".
\<close>

definition isObject :: "jsval \<Rightarrow> bool" where
  "isObject v = (case v of JRef a \<Rightarrow> True | _ \<Rightarrow> False)"

datatype error =
    Warning string string
  | SyntaxError
  | TransportError string

text \<open>
  Modelled from the spec: \<open>Utils._WARN_\<close> is not among the sources. By the spec a
  violated check "raises an invalid-parameter error synchronously before any network
  call", a missing mapping entry raises "a missing-parameter error", and an HTML body
  "signals a descriptive error instead of attempting JSON parsing". So \<open>WARN\<close> raises
  an error that carries the title and the detail it was called with.
\<close>

definition WARN :: "string \<Rightarrow> string \<Rightarrow> error + unit" where
  "WARN title detail = Inl (Warning title detail)"

definition is_invalid_parameter :: "error \<Rightarrow> bool" where
  "is_invalid_parameter e = (case e of Warning t d \<Rightarrow> t = ''Invalid parameter'' | _ \<Rightarrow> False)"


text \<open>
  \<open>helpers/constants\<close> is not among the sources: the version and the host are
  parameters of the client.
\<close>

record constants =
  API_VERSION :: string
  HOST :: string

text \<open>
  Modelled from the spec: \<open>helpers/ReturnObject\<close> is not among the sources. It builds
  the result envelope "{ success: boolean, message: string, code: integer, data: any }"
  from its four arguments. The data is the parsed document or, in the call that follows
  a failed parse, the text of the body.
\<close>

datatype 'd body = Text string | Json 'd

record 'd envelope =
  success :: bool
  message :: string
  code :: int
  data :: "'d body"

definition ReturnObject :: "bool \<Rightarrow> string \<Rightarrow> int \<Rightarrow> 'd body \<Rightarrow> 'd envelope" where
  "ReturnObject s m c d = \<lparr>success = s, message = m, code = c, data = d\<rparr>"

section \<open>The request-option builder\<close>

record options =
  path :: string  "method" :: string
  host :: string  port :: nat

text \<open>
  \<open>_buildRequestOptions\<close>. The variable \<open>params\<close> is overwritten with the query
  string, or with \<open>undefined\<close>; the test \<open>params == undefined\<close> that follows is
  false for every string, the empty one too.
\<close>

definition buildRequestOptions ::
  "constants \<Rightarrow> heap \<Rightarrow> string \<Rightarrow> string \<Rightarrow> jsval \<Rightarrow> options" where
  "buildRequestOptions K h m p params =
     (let m' = toUpperCase m;
          q = (if isObject params then Some (querystring_stringify (props h params)) else None);
          p' = (case q of
                  None \<Rightarrow> ''/api/v'' @ API_VERSION K @ p
                | Some qs \<Rightarrow> ''/api/v'' @ API_VERSION K @ p @ ''?'' @ qs)
      in \<lparr>path = p', method = m', host = HOST K, port = 443\<rparr>)"

section \<open>The HTTPS round-trip\<close>

text \<open>
  What the network does with a request: the transport fails (the \<open>error\<close> event), or a
  response arrives and ends, with its status and the chunks of its body.
\<close>

record response =
  statusCode :: int
  statusMessage :: string
  chunks :: "string list"

datatype exchange = Failed error | Answered response

text \<open>A promise settles once: \<open>resolve\<close> and \<open>reject\<close> change a pending promise only.\<close>

datatype 'd promise = Pending | Resolved "'d envelope" | Rejected error

definition resolve :: "'d promise \<Rightarrow> 'd envelope \<Rightarrow> 'd promise" where
  "resolve pr v = (case pr of Pending \<Rightarrow> Resolved v | _ \<Rightarrow> pr)"

definition reject :: "'d promise \<Rightarrow> error \<Rightarrow> 'd promise" where
  "reject pr e = (case pr of Pending \<Rightarrow> Rejected e | _ \<Rightarrow> pr)"

text \<open>
  \<open>JSON.parse\<close> belongs to the platform. Its grammar is a parameter \<open>G\<close>, from a text
  to the parsed document, of which one fact is fixed: a JSON text starts, after white
  space, with the first character of a JSON value; any other text is a syntax error.
\<close>

fun json_value_start :: "string \<Rightarrow> bool" where
  "json_value_start [] = False"
| "json_value_start (c # cs) =
     (if c \<in> {CHR '' '', CHR 0x09, CHR 0x0A, CHR 0x0D} then json_value_start cs
      else c \<in> set ''{[-0123456789tfn'' \<or> c = CHR 0x22)"

definition JSON_parse :: "(string \<Rightarrow> 'd option) \<Rightarrow> string \<Rightarrow> error + 'd" where
  "JSON_parse G s =
     (if json_value_start s
      then (case G s of None \<Rightarrow> Inl SyntaxError | Some v \<Rightarrow> Inr v)
      else Inl SyntaxError)"

text \<open>
  The body of the \<open>try\<close> in the \<open>end\<close> handler, on the decoded body: its result, and
  the texts that were given to \<open>JSON.parse\<close>.
\<close>

definition try_block :: "(string \<Rightarrow> 'd option) \<Rightarrow> string \<Rightarrow> (error + 'd) \<times> string list" where
  "try_block G b =
     (if startsWith b ''<!DOCTYPE html>''
      then (case WARN ''Invalid request''
                   ''There was a problem with your request. The parameter(s) you gave are missing or incorrect.'' of
              Inl e \<Rightarrow> (Inl e, [])
            | Inr u \<Rightarrow> (JSON_parse G b, [b]))
      else (JSON_parse G b, [b]))"

text \<open>
  The \<open>end\<close> handler: \<open>catch\<close> rejects, and the \<open>resolve\<close> after it runs in every
  case, on the parsed document or on the text that \<open>body\<close> still holds.
\<close>

definition on_end :: "(string \<Rightarrow> 'd option) \<Rightarrow> response \<Rightarrow> 'd promise \<times> string list" where
  "on_end G res =
     (let b = concat (chunks res);
          t = try_block G b;
          pr = (case fst t of Inl e \<Rightarrow> reject Pending e | Inr v \<Rightarrow> Pending);
          d = (case fst t of Inl e \<Rightarrow> Text b | Inr v \<Rightarrow> Json v)
      in (resolve pr
            (ReturnObject (\<not> (statusCode res < 200 \<or> statusCode res \<ge> 300))
               (statusMessage res) (statusCode res) d),
          snd t))"

text \<open>
  A run of an endpoint method: the caller's store afterwards, the requests that were
  issued, how the returned promise settled, and the texts given to \<open>JSON.parse\<close>.
\<close>

record 'd run =
  store :: heap
  sent :: "options list"
  settled :: "'d promise"
  parsed :: "string list"

record 'd env =
  config :: constants
  grammar :: "string \<Rightarrow> 'd option"
  network :: "options \<Rightarrow> exchange"

text \<open>
  \<open>_request\<close>: issue the request and settle on what the network does. The path is
  taken as one \<open>https.request\<close> accepts; Node refuses a path with a space, a control
  character or a character beyond U+00FF before anything is sent, which an identifier
  with such a character would cause and which is not covered here.
\<close>

definition request :: "'d env \<Rightarrow> heap \<Rightarrow> options \<Rightarrow> 'd run" where
  "request E h opts =
     (let r = (case network E opts of
                 Failed e \<Rightarrow> (reject Pending e, [])
               | Answered res \<Rightarrow> on_end (grammar E) res)
      in \<lparr>store = h, sent = [opts], settled = fst r, parsed = snd r\<rparr>)"

text \<open>
  An error raised in the body of an \<open>async\<close> method before its request: the promise is
  rejected and nothing was sent. \<open>when_warn c w h rest\<close> is the statement
  \<open>if (c) w;\<close> followed by \<open>rest\<close>.
\<close>

definition raise :: "heap \<Rightarrow> error \<Rightarrow> 'd run" where
  "raise h e = \<lparr>store = h, sent = [], settled = Rejected e, parsed = []\<rparr>"

definition when_warn :: "bool \<Rightarrow> error + unit \<Rightarrow> heap \<Rightarrow> 'd run \<Rightarrow> 'd run" where
  "when_warn c w h rest =
     (if c then (case w of Inl e \<Rightarrow> raise h e | Inr u \<Rightarrow> rest) else rest)"

section \<open>The endpoint methods\<close>

text \<open>
  Each method is \<open>async\<close>: what it returns is a promise, and the run records how that
  promise settles. The path templates have \<open>pathPrefix\<close> filled in (\<open>coins\<close>,
  \<open>exchanges\<close>); an identifier enters its template through ToString.
\<close>

definition coins_markets :: "'d env \<Rightarrow> heap \<Rightarrow> jsval \<Rightarrow> 'd run" where
  "coins_markets E h params =
     when_warn (\<not> isObject params)
       (WARN ''Invalid parameter'' ''params must be of type: Object'') h
       (let h1 = (if \<not> isString (getp h params ''vs_currency'')
                     \<or> isStringEmpty (getp h params ''vs_currency'')
                  then setp h params ''vs_currency'' (JStr ''usd'') else h);
            h2 = (if isArray (getp h1 params ''ids'')
                  then setp h1 params ''ids'' (JStr (array_join (getp h1 params ''ids'') '',''))
                  else h1)
        in request E h2 (buildRequestOptions (config E) h2 ''GET'' ''/coins/markets'' params))"

definition coins_fetch :: "'d env \<Rightarrow> heap \<Rightarrow> jsval \<Rightarrow> jsval \<Rightarrow> 'd run" where
  "coins_fetch E h coinId params =
     when_warn (\<not> isString coinId \<or> isStringEmpty coinId)
       (WARN ''Invalid parameter'' ''coinId must be of type: String and greater than 0 characters.'') h
       (request E h (buildRequestOptions (config E) h ''GET'' (''/coins/'' @ toStr coinId) params))"

definition coins_fetchTickers :: "'d env \<Rightarrow> heap \<Rightarrow> jsval \<Rightarrow> jsval \<Rightarrow> 'd run" where
  "coins_fetchTickers E h coinId params =
     when_warn (\<not> isString coinId \<or> isStringEmpty coinId)
       (WARN ''Invalid parameter'' ''coinId must be of type: String and greater than 0 characters.'') h
       (request E h
          (buildRequestOptions (config E) h ''GET'' (''/coins/'' @ toStr coinId @ ''/tickers'') params))"

definition coins_fetchHistory :: "'d env \<Rightarrow> heap \<Rightarrow> jsval \<Rightarrow> jsval \<Rightarrow> 'd run" where
  "coins_fetchHistory E h coinId params =
     when_warn (\<not> isString coinId \<or> isStringEmpty coinId)
       (WARN ''Invalid parameter'' ''coinId must be of type: String and greater than 0 characters.'') h
       (when_warn (\<not> isObject params)
          (WARN ''Invalid parameter'' ''params must be of type: Object'') h
          (when_warn (\<not> isString (getp h params ''date'') \<or> isStringEmpty (getp h params ''date''))
             (WARN ''Missing parameter''
                ''params must include `date` and be a string in format: `dd-mm-yyyy`'') h
             (request E h
                (buildRequestOptions (config E) h ''GET''
                   (''/coins/'' @ toStr coinId @ ''/history'') params))))"

definition coins_fetchMarketChart :: "'d env \<Rightarrow> heap \<Rightarrow> jsval \<Rightarrow> jsval \<Rightarrow> 'd run" where
  "coins_fetchMarketChart E h coinId params =
     when_warn (\<not> isString coinId \<or> isStringEmpty coinId)
       (WARN ''Invalid parameter'' ''coinId must be of type: String and greater than 0 characters.'') h
       (when_warn (\<not> isObject params)
          (WARN ''Invalid parameter'' ''params must be of type: Object'') h
          (let h1 = (if \<not> isString (getp h params ''vs_currency'')
                        \<or> isStringEmpty (getp h params ''vs_currency'')
                     then setp h params ''vs_currency'' (JStr ''usd'') else h);
               h2 = (if looseEqUndefined (getp h1 params ''days'')
                     then setp h1 params ''days'' (JNum ''1'') else h1)
           in request E h2
                (buildRequestOptions (config E) h2 ''GET''
                   (''/coins/'' @ toStr coinId @ ''/market_chart'') params)))"

definition coins_fetchStatusUpdates :: "'d env \<Rightarrow> heap \<Rightarrow> jsval \<Rightarrow> jsval \<Rightarrow> 'd run" where
  "coins_fetchStatusUpdates E h coinId params =
     when_warn (\<not> isString coinId \<or> isStringEmpty coinId)
       (WARN ''Invalid parameter'' ''coinId must be of type: String and greater than 0 characters.'') h
       (request E h
          (buildRequestOptions (config E) h ''GET''
             (''/coins/'' @ toStr coinId @ ''/status_updates'') params))"

text \<open>The calls without a \<open>params\<close> argument hand \<open>undefined\<close> to the builder.\<close>

definition exchanges_fetch :: "'d env \<Rightarrow> heap \<Rightarrow> jsval \<Rightarrow> 'd run" where
  "exchanges_fetch E h exchangeId =
     when_warn (\<not> isString exchangeId \<or> isStringEmpty exchangeId)
       (WARN ''Invalid parameter''
          ''exchangeId must be of type: String and greater than 0 characters.'') h
       (request E h
          (buildRequestOptions (config E) h ''GET'' (''/exchanges/'' @ toStr exchangeId) JUndefined))"

definition exchanges_fetchTickers :: "'d env \<Rightarrow> heap \<Rightarrow> jsval \<Rightarrow> jsval \<Rightarrow> 'd run" where
  "exchanges_fetchTickers E h exchangeId params =
     when_warn (\<not> isString exchangeId \<or> isStringEmpty exchangeId)
       (WARN ''Invalid parameter''
          ''exchangeId must be of type: String and greater than 0 characters.'') h
       (request E h
          (buildRequestOptions (config E) h ''GET''
             (''/exchanges/'' @ toStr exchangeId @ ''/tickers'') params))"

definition exchanges_fetchStatusUpdates :: "'d env \<Rightarrow> heap \<Rightarrow> jsval \<Rightarrow> jsval \<Rightarrow> 'd run" where
  "exchanges_fetchStatusUpdates E h exchangeId params =
     when_warn (\<not> isString exchangeId \<or> isStringEmpty exchangeId)
       (WARN ''Invalid parameter''
          ''exchangeId must be of type: String and greater than 0 characters.'') h
       (request E h
          (buildRequestOptions (config E) h ''GET''
             (''/exchanges/'' @ toStr exchangeId @ ''/status_updates'') params))"

definition onChain_tokenPrice :: "'d env \<Rightarrow> heap \<Rightarrow> jsval \<Rightarrow> jsval \<Rightarrow> 'd run" where
  "onChain_tokenPrice E h network_id addresses =
     request E h
       (buildRequestOptions (config E) h ''GET''
          (''/onchain/simple/networks/'' @ toStr network_id @ ''/token_price/'' @ toStr addresses)
          JUndefined)"

definition onChain_dexes :: "'d env \<Rightarrow> heap \<Rightarrow> jsval \<Rightarrow> jsval \<Rightarrow> 'd run" where
  "onChain_dexes E h network_id params =
     request E h
       (buildRequestOptions (config E) h ''GET''
          (''/onchain/networks/'' @ toStr network_id @ ''/dexes'') params)"

section \<open>A concrete client, for the examples\<close>

definition example_constants :: constants where
  "example_constants = \<lparr>API_VERSION = ''3'', HOST = ''api.coingecko.com''\<rparr>"

text \<open>A grammar that takes every text as its own document.\<close>

definition text_grammar :: "string \<Rightarrow> string option" where
  "text_grammar s = Some s"

text \<open>A network that answers every request with 404 and a JSON body in two chunks.\<close>

definition not_found_network :: "options \<Rightarrow> exchange" where
  \<open>not_found_network opts =
     Answered \<lparr>statusCode = 404, statusMessage = ''Not Found'',
               chunks = [''{"error":'', ''"coin not found"}'']\<rparr>\<close>

text \<open>A network that answers every request with 200 and an HTML page.\<close>

definition html_network :: "options \<Rightarrow> exchange" where
  "html_network opts =
     Answered \<lparr>statusCode = 200, statusMessage = ''OK'',
               chunks = [''<!DOCTYPE html><html></html>'']\<rparr>"

definition example_env :: "string env" where
  "example_env =
     \<lparr>config = example_constants, grammar = text_grammar, network = not_found_network\<rparr>"

definition html_env :: "string env" where
  "html_env =
     \<lparr>config = example_constants, grammar = text_grammar, network = html_network\<rparr>"

text \<open>
  Stores for the examples: one in which every object is empty, and one whose object 0
  is \<open>{ ids: ['bitcoin', 'ethereum'] }\<close>.
\<close>

definition empty_store :: heap where
  "empty_store a = []"

definition ids_store :: heap where
  "ids_store a = (if a = 0 then [(''ids'', JArr [JStr ''bitcoin'', JStr ''ethereum''])] else [])"

section \<open>What the theorems speak about\<close>

text \<open>
  A run in which an error of the given kind was raised before any request: nothing was
  sent, nothing was parsed, and the promise is rejected with that error.
\<close>

definition raises_before_request :: "(error \<Rightarrow> bool) \<Rightarrow> 'd run \<Rightarrow> bool" where
  "raises_before_request kind r =
     (sent r = [] \<and> parsed r = [] \<and> (case settled r of Rejected e \<Rightarrow> kind e | _ \<Rightarrow> False))"

text \<open>
  A run that issued exactly one GET request, for the endpoint \<open>p\<close>, whose query is the
  serialization of the object \<open>params\<close> as the run left it.
\<close>

definition requested :: "'d env \<Rightarrow> string \<Rightarrow> jsval \<Rightarrow> 'd run \<Rightarrow> bool" where
  "requested E p params r =
     (sent r =
        [\<lparr>path = ''/api/v'' @ API_VERSION (config E) @ p @ ''?'' @
                  join_with ''&'' (stringify_fields (props (store r) params)),
          method = ''GET'', host = HOST (config E), port = 443\<rparr>])"

definition ping_options :: options where
  "ping_options =
     \<lparr>path = ''/api/v3/ping'', method = ''GET'', host = ''api.coingecko.com'', port = 443\<rparr>"

text \<open>The check every coin and exchange method makes on its identifier, as one predicate.\<close>

definition nonEmptyString :: "jsval \<Rightarrow> bool" where
  "nonEmptyString v = (isString v \<and> \<not> isStringEmpty v)"

text \<open>
  A store whose object 0 is
  \<open>{ vs_currency: 'usd', 'price change': '1h,24h', page: 2, sparkline: false }\<close>.
\<close>

definition query_store :: heap where
  "query_store a =
     (if a = 0
      then [(''vs_currency'', JStr ''usd''), (''price change'', JStr ''1h,24h''),
            (''page'', JNum ''2''), (''sparkline'', JBool False)]
      else [])"

text \<open>
  The fields of a query string: the pieces between its \<open>&\<close> separators, in order.
\<close>

fun split_query :: "string \<Rightarrow> string list" where
  "split_query [] = [[]]"
| "split_query (c # cs) =
     (if c = CHR ''&'' then [] # split_query cs
      else (case split_query cs of [] \<Rightarrow> [[c]] | x # xs \<Rightarrow> (c # x) # xs))"

section \<open>Basic facts\<close>

lemma isObject_iff: "isObject v = (\<exists>a. v = JRef a)"
  by (cases v) (simp_all add: isObject_def)

lemma when_warn_WARN:
  "when_warn c (WARN t d) h rest = (if c then raise h (Warning t d) else rest)"
  by (simp add: when_warn_def WARN_def)

lemma request_sent: "sent (request E h opts) = [opts]"
  by (simp add: request_def Let_def)

lemma request_store: "store (request E h opts) = h"
  by (simp add: request_def Let_def)

lemma raises_raise: "raises_before_request kind (raise h e) = kind e"
  by (simp add: raises_before_request_def raise_def)

lemma not_raises_request: "\<not> raises_before_request kind (request E h opts)"
  by (simp add: raises_before_request_def request_sent)

section \<open>The round-trip\<close>

lemma doctype_not_json: "startsWith b ''<!DOCTYPE html>'' \<Longrightarrow> \<not> json_value_start b"
  by (cases b) (auto simp: startsWith_def)

lemma try_block_parsed:
  assumes "JSON_parse G b = Inr v"
  shows "try_block G b = (Inr v, [b])"
proof -
  have "json_value_start b"
    using assms by (auto simp: JSON_parse_def split: if_splits)
  then have "\<not> startsWith b ''<!DOCTYPE html>''"
    using doctype_not_json by blast
  then show ?thesis
    using assms by (simp add: try_block_def)
qed

lemma try_block_html:
  assumes "startsWith b ''<!DOCTYPE html>''"
  shows "try_block G b = (Inl (Warning ''Invalid request''
     ''There was a problem with your request. The parameter(s) you gave are missing or incorrect.''), [])"
  using assms by (simp add: try_block_def WARN_def)

section \<open>The builder and the two methods that write to their parameters\<close>

lemma toUpperCase_GET: "toUpperCase ''GET'' = ''GET''"
  by (simp add: toUpperCase_def)

lemma getp_setp:
  "getp (setp h (JRef a) k x) (JRef a) k' = (if k' = k then x else getp h (JRef a) k')"
  by (simp add: getp_def setp_def update_conv')

lemma setp_other: "b \<noteq> a \<Longrightarrow> setp h (JRef a) k x b = h b"
  by (simp add: setp_def)


lemma stringify_field_single:
  "\<not> isArray v \<Longrightarrow>
   stringify_field (k, v) = [qsEscape k @ ''='' @ qsEscape (stringifyPrimitive v)]"
  by (cases v) (simp_all add: stringify_field_def isArray_def encodeStringified_def)

lemma field_of_entry:
  assumes "(k, v) \<in> set obj" and "\<not> isArray v"
  shows "qsEscape k @ ''='' @ qsEscape (stringifyPrimitive v) \<in> set (stringify_fields obj)"
proof -
  have "qsEscape k @ ''='' @ qsEscape (stringifyPrimitive v) \<in> set (stringify_field (k, v))"
    using assms(2) by (simp add: stringify_field_single)
  then show ?thesis
    using assms(1) unfolding stringify_fields_def by (auto simp del: append_assoc)
qed

lemma field_of_getp:
  assumes "getp h (JRef a) k = v" and "v \<noteq> JUndefined" and "\<not> isArray v"
  shows "qsEscape k @ ''='' @ qsEscape (stringifyPrimitive v)
           \<in> set (stringify_fields (props h (JRef a)))"
proof -
  have "map_of (h a) k = Some v"
    using assms(1,2) by (auto simp: getp_def split: option.splits)
  then have "(k, v) \<in> set (h a)"
    by (rule map_of_SomeD)
  then show ?thesis
    using field_of_entry [OF _ assms(3)] by (simp add: props_def)
qed

lemma stringify_fields_plain:
  "\<forall>kv \<in> set obj. \<not> isArray (snd kv) \<Longrightarrow>
   stringify_fields obj =
     map (\<lambda>kv. qsEscape (fst kv) @ ''='' @ qsEscape (stringifyPrimitive (snd kv))) obj"
proof (induction obj)
  case Nil
  then show ?case by (simp add: stringify_fields_def)
next
  case (Cons kv obj)
  obtain k v where kv: "kv = (k, v)" by (cases kv)
  have "\<not> isArray v" using Cons.prems kv by simp
  then have "stringify_field kv = [qsEscape k @ ''='' @ qsEscape (stringifyPrimitive v)]"
    using kv by (simp add: stringify_field_single)
  moreover have "stringify_fields obj =
     map (\<lambda>kv. qsEscape (fst kv) @ ''='' @ qsEscape (stringifyPrimitive (snd kv))) obj"
    using Cons by simp
  ultimately show ?case
    using kv by (simp add: stringify_fields_def)
qed

lemma build_path_object:
  "path (buildRequestOptions K h m p (JRef a)) =
     ''/api/v'' @ API_VERSION K @ p @ ''?'' @ join_with ''&'' (stringify_fields (h a))"
  by (simp add: buildRequestOptions_def isObject_def props_def querystring_stringify_def)

lemma build_non_object:
  "\<not> isObject params \<Longrightarrow>
   buildRequestOptions K h m p params =
     \<lparr>path = ''/api/v'' @ API_VERSION K @ p, method = toUpperCase m, host = HOST K, port = 443\<rparr>"
  by (simp add: buildRequestOptions_def)

lemma build_object:
  "buildRequestOptions K h ''GET'' p (JRef a) =
     \<lparr>path = ''/api/v'' @ API_VERSION K @ p @ ''?'' @ join_with ''&'' (stringify_fields (h a)),
       method = ''GET'', host = HOST K, port = 443\<rparr>"
  by (simp add: buildRequestOptions_def isObject_def props_def querystring_stringify_def
      toUpperCase_GET)

lemma requested_request:
  "requested E p (JRef a) (request E h (buildRequestOptions (config E) h ''GET'' p (JRef a)))"
  by (simp add: requested_def request_sent request_store build_object props_def)

lemma coins_markets_non_object:
  "\<not> isObject params \<Longrightarrow>
   coins_markets E h params = raise h (Warning ''Invalid parameter'' ''params must be of type: Object'')"
  by (simp add: coins_markets_def when_warn_WARN)

lemma coins_markets_sent_object:
  "sent (coins_markets E h params) \<noteq> [] \<Longrightarrow> isObject params"
  by (rule ccontr) (simp add: coins_markets_non_object raise_def)

lemma coins_markets_requested:
  "requested E ''/coins/markets'' (JRef a) (coins_markets E h (JRef a))"
  by (simp add: coins_markets_def when_warn_WARN isObject_def Let_def requested_request)

lemma coins_markets_vs:
  "\<not> nonEmptyString (getp h (JRef a) ''vs_currency'') \<Longrightarrow>
   getp (store (coins_markets E h (JRef a))) (JRef a) ''vs_currency'' = JStr ''usd''"
  by (simp add: coins_markets_def when_warn_WARN isObject_def Let_def request_store getp_setp
      nonEmptyString_def)

lemma coins_markets_ids:
  "getp h (JRef a) ''ids'' = JArr xs \<Longrightarrow>
   getp (store (coins_markets E h (JRef a))) (JRef a) ''ids'' = JStr (array_join (JArr xs) '','')"
  by (simp add: coins_markets_def when_warn_WARN isObject_def Let_def request_store getp_setp
      isArray_def)

lemma coins_markets_frame:
  "b \<noteq> a \<Longrightarrow> store (coins_markets E h (JRef a)) b = h b"
  by (simp add: coins_markets_def when_warn_WARN isObject_def Let_def request_store setp_other)

lemma chart_bad_id:
  "\<not> nonEmptyString i \<Longrightarrow>
   coins_fetchMarketChart E h i params =
     raise h (Warning ''Invalid parameter''
       ''coinId must be of type: String and greater than 0 characters.'')"
  by (auto simp: coins_fetchMarketChart_def when_warn_WARN nonEmptyString_def)

lemma chart_non_object:
  "\<not> isObject params \<Longrightarrow> sent (coins_fetchMarketChart E h i params) = []"
  by (simp add: coins_fetchMarketChart_def when_warn_WARN raise_def)

lemma chart_sent:
  assumes "sent (coins_fetchMarketChart E h i params) \<noteq> []"
  shows "nonEmptyString i \<and> isObject params"
proof -
  have "nonEmptyString i"
    using assms by (rule_tac ccontr) (simp add: chart_bad_id raise_def)
  moreover have "isObject params"
    using assms by (rule_tac ccontr) (simp add: chart_non_object)
  ultimately show ?thesis by simp
qed

lemma chart_requested:
  "nonEmptyString i \<Longrightarrow>
   requested E (''/coins/'' @ toStr i @ ''/market_chart'') (JRef a)
     (coins_fetchMarketChart E h i (JRef a))"
  by (simp add: coins_fetchMarketChart_def when_warn_WARN isObject_def Let_def requested_request
      nonEmptyString_def del: append_assoc)

lemma chart_vs:
  "nonEmptyString i \<Longrightarrow> \<not> nonEmptyString (getp h (JRef a) ''vs_currency'') \<Longrightarrow>
   getp (store (coins_fetchMarketChart E h i (JRef a))) (JRef a) ''vs_currency'' = JStr ''usd''"
  by (simp add: coins_fetchMarketChart_def when_warn_WARN isObject_def Let_def request_store
      getp_setp nonEmptyString_def)

lemma chart_days:
  "nonEmptyString i \<Longrightarrow> getp h (JRef a) ''days'' = JUndefined \<Longrightarrow>
   getp (store (coins_fetchMarketChart E h i (JRef a))) (JRef a) ''days'' = JNum ''1''"
  by (simp add: coins_fetchMarketChart_def when_warn_WARN isObject_def Let_def request_store
      getp_setp nonEmptyString_def looseEqUndefined_def)

lemma chart_frame:
  "b \<noteq> a \<Longrightarrow> store (coins_fetchMarketChart E h i (JRef a)) b = h b"
  by (simp add: coins_fetchMarketChart_def when_warn_WARN isObject_def Let_def request_store
      setp_other raise_def)

lemma usd_field:
  assumes "getp h (JRef a) ''vs_currency'' = JStr ''usd''"
  shows "''vs_currency=usd'' \<in> set (stringify_fields (props h (JRef a)))"
proof -
  have "qsEscape ''vs_currency'' @ ''='' @ qsEscape (stringifyPrimitive (JStr ''usd''))
          \<in> set (stringify_fields (props h (JRef a)))"
    using assms by (intro field_of_getp) (simp_all add: isArray_def)
  moreover have "qsEscape ''vs_currency'' = ''vs_currency''"
    by (simp add: qsEscape_def escape_char_def unreserved_def)
  moreover have "qsEscape ''usd'' = ''usd''"
    by (simp add: qsEscape_def escape_char_def unreserved_def)
  ultimately show ?thesis by simp
qed

lemma days_field:
  assumes "getp h (JRef a) ''days'' = JNum ''1''"
  shows "''days=1'' \<in> set (stringify_fields (props h (JRef a)))"
proof -
  have "qsEscape ''days'' @ ''='' @ qsEscape (stringifyPrimitive (JNum ''1''))
          \<in> set (stringify_fields (props h (JRef a)))"
    using assms by (intro field_of_getp) (simp_all add: isArray_def)
  moreover have "qsEscape ''days'' = ''days''"
    by (simp add: qsEscape_def escape_char_def unreserved_def)
  moreover have "qsEscape ''1'' = ''1''"
    by (simp add: qsEscape_def escape_char_def unreserved_def)
  ultimately show ?thesis by simp
qed


text \<open>Escaped fields hold no \<open>&\<close>, so splitting the joined query gives the fields back.\<close>

lemma split_query_plain: "CHR ''&'' \<notin> set x \<Longrightarrow> split_query x = [x]"
  by (induction x) auto

lemma split_query_append:
  "CHR ''&'' \<notin> set x \<Longrightarrow> split_query (x @ CHR ''&'' # ys) = x # split_query ys"
  by (induction x) auto

lemma split_query_join:
  "fs \<noteq> [] \<Longrightarrow> \<forall>g \<in> set fs. CHR ''&'' \<notin> set g \<Longrightarrow>
   split_query (join_with ''&'' fs) = fs"
proof (induction "''&''" fs rule: join_with.induct)
  case 1
  then show ?case by simp
next
  case (2 x)
  then show ?case by (simp add: split_query_plain)
next
  case (3 x y ys)
  then show ?case by (simp add: split_query_append)
qed

lemma hexdigit_not_amp: "hexdigit n \<noteq> CHR ''&''"
proof -
  have "n mod 16 < length ''0123456789ABCDEF''" by simp
  then have "hexdigit n \<in> set ''0123456789ABCDEF''"
    unfolding hexdigit_def by (rule nth_mem)
  then show ?thesis by auto
qed

lemma amp_reserved: "\<not> unreserved CHR ''&''"
  by (simp add: unreserved_def)

lemma escape_char_no_amp: "CHR ''&'' \<notin> set (escape_char c)"
proof (cases "unreserved c")
  case True
  then have "c \<noteq> CHR ''&''"
    using amp_reserved by auto
  then show ?thesis
    using True by (simp add: escape_char_def)
next
  case False
  have "CHR ''&'' \<noteq> hexdigit (of_char c div 16)" and "CHR ''&'' \<noteq> hexdigit (of_char c)"
    using hexdigit_not_amp by metis+
  then show ?thesis
    using False by (simp add: escape_char_def)
qed

lemma qsEscape_no_amp: "CHR ''&'' \<notin> set (qsEscape s)"
  by (simp add: qsEscape_def escape_char_no_amp)

lemma stringify_field_no_amp: "g \<in> set (stringify_field kv) \<Longrightarrow> CHR ''&'' \<notin> set g"
  by (cases "snd kv")
     (auto simp: stringify_field_def encodeStringified_def Let_def qsEscape_no_amp)

lemma stringify_fields_no_amp: "\<forall>g \<in> set (stringify_fields obj). CHR ''&'' \<notin> set g"
  by (auto simp: stringify_fields_def dest: stringify_field_no_amp)

lemma field_in_query:
  assumes "f \<in> set (stringify_fields obj)"
  shows "f \<in> set (split_query (join_with ''&'' (stringify_fields obj)))"
proof -
  have "stringify_fields obj \<noteq> []"
    using assms by auto
  then have "split_query (join_with ''&'' (stringify_fields obj)) = stringify_fields obj"
    using stringify_fields_no_amp by (rule split_query_join)
  then show ?thesis
    using assms by simp
qed

section \<open>The claims\<close>

text \<open>
  Claim C1. When the round-trip completes with a response whose body parses as JSON, the
  promise of \<open>_request\<close> is resolved, not rejected, with the envelope of the status
  message, the status code and the parsed document, and \<open>success\<close> is true exactly when
  the status code is at least 200 and below 300. A body that parses is not an HTML page:
  a JSON text cannot start with \<open><\<close>.
\<close>

theorem C1_request_resolves_envelope:
  assumes "network E opts = Answered res"
    and "JSON_parse (grammar E) (concat (chunks res)) = Inr v"
  shows "settled (request E h opts) =
           Resolved \<lparr>success = (200 \<le> statusCode res \<and> statusCode res < 300),
                     message = statusMessage res, code = statusCode res, data = Json v\<rparr>"
proof -
  have "on_end (grammar E) res =
          (Resolved (ReturnObject (\<not> (statusCode res < 200 \<or> statusCode res \<ge> 300))
             (statusMessage res) (statusCode res) (Json v)), [concat (chunks res)])"
    using try_block_parsed [OF assms(2)]
    by (simp add: on_end_def Let_def resolve_def)
  then show ?thesis
    using assms(1) by (auto simp: request_def ReturnObject_def)
qed

text \<open>
  The case the spec names: status 404 with a JSON body resolves with \<open>success\<close> false
  and \<open>code\<close> 404.
\<close>

theorem C1_request_resolves_envelope_witness:
  \<open>network example_env ping_options =
     Answered \<lparr>statusCode = 404, statusMessage = ''Not Found'',
               chunks = [''{"error":'', ''"coin not found"}'']\<rparr>
   \<and> JSON_parse (grammar example_env) ''{"error":"coin not found"}'' =
       Inr ''{"error":"coin not found"}''
   \<and> settled (request example_env empty_store ping_options) =
       Resolved \<lparr>success = False, message = ''Not Found'', code = 404,
                 data = Json ''{"error":"coin not found"}''\<rparr>\<close>
proof -
  have n: \<open>network example_env ping_options =
     Answered \<lparr>statusCode = 404, statusMessage = ''Not Found'',
               chunks = [''{"error":'', ''"coin not found"}'']\<rparr>\<close>
    by (simp add: example_env_def not_found_network_def)
  have p: \<open>JSON_parse (grammar example_env)
       (concat (chunks \<lparr>statusCode = 404, statusMessage = ''Not Found'',
               chunks = [''{"error":'', ''"coin not found"}'']\<rparr>)) =
       Inr ''{"error":"coin not found"}''\<close>
    by (simp add: example_env_def JSON_parse_def text_grammar_def)
  show ?thesis
    using n p C1_request_resolves_envelope [OF n p, of empty_store] by simp
qed

text \<open>
  The coin and exchange methods check their identifier first: with an identifier that is
  not a non-empty string the promise is rejected with the invalid-parameter error and no
  request has been issued.
\<close>

lemma coin_and_exchange_identifier_checked:
  assumes "\<not> nonEmptyString i"
  shows "raises_before_request is_invalid_parameter (coins_fetch E h i params)
     \<and> raises_before_request is_invalid_parameter (coins_fetchTickers E h i params)
     \<and> raises_before_request is_invalid_parameter (coins_fetchHistory E h i params)
     \<and> raises_before_request is_invalid_parameter (coins_fetchMarketChart E h i params)
     \<and> raises_before_request is_invalid_parameter (coins_fetchStatusUpdates E h i params)
     \<and> raises_before_request is_invalid_parameter (exchanges_fetch E h i)
     \<and> raises_before_request is_invalid_parameter (exchanges_fetchTickers E h i params)
     \<and> raises_before_request is_invalid_parameter (exchanges_fetchStatusUpdates E h i params)"
proof -
  have c: "\<not> isString i \<or> isStringEmpty i"
    using assms by (simp add: nonEmptyString_def)
  have k: "is_invalid_parameter (Warning ''Invalid parameter'' d)" for d
    by (simp add: is_invalid_parameter_def)
  have "raises_before_request is_invalid_parameter (coins_fetch E h i params)"
    using c by (simp add: coins_fetch_def when_warn_WARN raises_raise k)
  moreover have "raises_before_request is_invalid_parameter (coins_fetchTickers E h i params)"
    using c by (simp add: coins_fetchTickers_def when_warn_WARN raises_raise k)
  moreover have "raises_before_request is_invalid_parameter (coins_fetchHistory E h i params)"
    using c by (simp add: coins_fetchHistory_def when_warn_WARN raises_raise k)
  moreover have "raises_before_request is_invalid_parameter (coins_fetchMarketChart E h i params)"
    using c by (simp add: coins_fetchMarketChart_def when_warn_WARN raises_raise k)
  moreover have "raises_before_request is_invalid_parameter (coins_fetchStatusUpdates E h i params)"
    using c by (simp add: coins_fetchStatusUpdates_def when_warn_WARN raises_raise k)
  moreover have "raises_before_request is_invalid_parameter (exchanges_fetch E h i)"
    using c by (simp add: exchanges_fetch_def when_warn_WARN raises_raise k)
  moreover have "raises_before_request is_invalid_parameter (exchanges_fetchTickers E h i params)"
    using c by (simp add: exchanges_fetchTickers_def when_warn_WARN raises_raise k)
  moreover have "raises_before_request is_invalid_parameter (exchanges_fetchStatusUpdates E h i params)"
    using c by (simp add: exchanges_fetchStatusUpdates_def when_warn_WARN raises_raise k)
  ultimately show ?thesis by blast
qed

text \<open>
  Claim C2. Every endpoint method that takes a required path-segment identifier (a coin,
  an exchange or a network identifier) raises an invalid-parameter error, before any
  network call, when the identifier is not a non-empty string. The two on-chain methods
  make no check of their network identifier: with the empty string
  as network, \<open>onChain.tokenPrice\<close> issues a request for
  \<open>/onchain/simple/networks//token_price/0xabc\<close> and \<open>onChain.dexes\<close> one for
  \<open>/onchain/networks//dexes\<close>; no error is raised.
\<close>

theorem C2_onChain_network_identifier_unchecked:
  "\<not> nonEmptyString (JStr [])
   \<and> sent (onChain_tokenPrice example_env empty_store (JStr []) (JStr ''0xabc'')) =
       [\<lparr>path = ''/api/v3/onchain/simple/networks//token_price/0xabc'', method = ''GET'',
          host = ''api.coingecko.com'', port = 443\<rparr>]
   \<and> \<not> raises_before_request is_invalid_parameter
         (onChain_tokenPrice example_env empty_store (JStr []) (JStr ''0xabc''))
   \<and> sent (onChain_dexes example_env empty_store (JStr []) JUndefined) =
       [\<lparr>path = ''/api/v3/onchain/networks//dexes'', method = ''GET'',
          host = ''api.coingecko.com'', port = 443\<rparr>]
   \<and> \<not> raises_before_request is_invalid_parameter
         (onChain_dexes example_env empty_store (JStr []) JUndefined)"
  by (simp add: onChain_tokenPrice_def onChain_dexes_def request_sent not_raises_request
      build_non_object isObject_def toUpperCase_GET example_env_def example_constants_def
      nonEmptyString_def isStringEmpty_def isString_def)




text \<open>
  Claim C4. When the decoded body of the response begins with \<open><!DOCTYPE html>\<close>, the
  promise of \<open>_request\<close> is rejected with the invalid-request error, nothing is given
  to \<open>JSON.parse\<close>, and the promise is not resolved with any envelope.
\<close>

theorem C4_html_body_is_invalid_request:
  assumes "network E opts = Answered res"
    and "startsWith (concat (chunks res)) ''<!DOCTYPE html>''"
  shows "settled (request E h opts) = Rejected (Warning ''Invalid request''
           ''There was a problem with your request. The parameter(s) you gave are missing or incorrect.'')
     \<and> parsed (request E h opts) = []
     \<and> (\<forall>v. settled (request E h opts) \<noteq> Resolved v)"
  using assms(1) try_block_html [OF assms(2), of "grammar E"]
  by (simp add: request_def on_end_def Let_def reject_def resolve_def)

theorem C4_html_body_is_invalid_request_witness:
  "network html_env ping_options =
     Answered \<lparr>statusCode = 200, statusMessage = ''OK'',
               chunks = [''<!DOCTYPE html><html></html>'']\<rparr>
   \<and> startsWith ''<!DOCTYPE html><html></html>'' ''<!DOCTYPE html>''
   \<and> settled (request html_env empty_store ping_options) = Rejected (Warning ''Invalid request''
           ''There was a problem with your request. The parameter(s) you gave are missing or incorrect.'')
   \<and> parsed (request html_env empty_store ping_options) = []"
proof -
  have n: "network html_env ping_options =
     Answered \<lparr>statusCode = 200, statusMessage = ''OK'',
               chunks = [''<!DOCTYPE html><html></html>'']\<rparr>"
    by (simp add: html_env_def html_network_def)
  have p: "startsWith (concat (chunks \<lparr>statusCode = 200, statusMessage = ''OK'',
               chunks = [''<!DOCTYPE html><html></html>'']\<rparr>)) ''<!DOCTYPE html>''"
    by (simp add: startsWith_def)
  show ?thesis
    using n p C4_html_body_is_invalid_request [OF n p, of empty_store] by simp
qed

text \<open>
  Claim C5. Whenever \<open>coins.markets\<close> or \<open>coins.fetchMarketChart\<close> issues its request
  and the \<open>vs_currency\<close> entry of \<open>params\<close> was absent, not a string or empty, the
  request that is sent has a path ending in \<open>?\<close> and a query of which
  \<open>vs_currency=usd\<close> is one of the fields between the \<open>&\<close> separators; whenever
  \<open>coins.fetchMarketChart\<close> issues its request and the \<open>days\<close> entry was undefined,
  \<open>days=1\<close> is one of the fields of the query sent. The query in \<open>requested\<close> and
  the string that is split are the same term.
\<close>

theorem C5_default_currency_and_days:
  "(sent (coins_markets E h params) \<noteq> [] \<and> \<not> nonEmptyString (getp h params ''vs_currency'')
      \<longrightarrow> requested E ''/coins/markets'' params (coins_markets E h params)
        \<and> ''vs_currency=usd''
             \<in> set (split_query (join_with ''&''
                  (stringify_fields (props (store (coins_markets E h params)) params)))))
   \<and> (sent (coins_fetchMarketChart E h coinId params) \<noteq> []
        \<and> \<not> nonEmptyString (getp h params ''vs_currency'')
      \<longrightarrow> requested E (''/coins/'' @ toStr coinId @ ''/market_chart'') params
            (coins_fetchMarketChart E h coinId params)
        \<and> ''vs_currency=usd''
             \<in> set (split_query (join_with ''&''
                  (stringify_fields (props (store (coins_fetchMarketChart E h coinId params)) params)))))
   \<and> (sent (coins_fetchMarketChart E h coinId params) \<noteq> []
        \<and> getp h params ''days'' = JUndefined
      \<longrightarrow> requested E (''/coins/'' @ toStr coinId @ ''/market_chart'') params
            (coins_fetchMarketChart E h coinId params)
        \<and> ''days=1''
             \<in> set (split_query (join_with ''&''
                  (stringify_fields (props (store (coins_fetchMarketChart E h coinId params)) params)))))"
proof (intro conjI impI)
  assume a: "sent (coins_markets E h params) \<noteq> [] \<and> \<not> nonEmptyString (getp h params ''vs_currency'')"
  then obtain ad where p: "params = JRef ad"
    using coins_markets_sent_object isObject_iff by blast
  show "requested E ''/coins/markets'' params (coins_markets E h params)"
    unfolding p by (rule coins_markets_requested)
  show "''vs_currency=usd''
          \<in> set (split_query (join_with ''&''
               (stringify_fields (props (store (coins_markets E h params)) params))))"
    using a unfolding p by (intro field_in_query usd_field coins_markets_vs) simp
next
  assume a: "sent (coins_fetchMarketChart E h coinId params) \<noteq> []
        \<and> \<not> nonEmptyString (getp h params ''vs_currency'')"
  then obtain ad where p: "params = JRef ad" and i: "nonEmptyString coinId"
    using chart_sent isObject_iff by blast
  show "requested E (''/coins/'' @ toStr coinId @ ''/market_chart'') params
            (coins_fetchMarketChart E h coinId params)"
    unfolding p using i by (rule chart_requested)
  show "''vs_currency=usd''
          \<in> set (split_query (join_with ''&''
               (stringify_fields (props (store (coins_fetchMarketChart E h coinId params)) params))))"
    using a i unfolding p by (intro field_in_query usd_field chart_vs) simp_all
next
  assume a: "sent (coins_fetchMarketChart E h coinId params) \<noteq> []
        \<and> getp h params ''days'' = JUndefined"
  then obtain ad where p: "params = JRef ad" and i: "nonEmptyString coinId"
    using chart_sent isObject_iff by blast
  show "requested E (''/coins/'' @ toStr coinId @ ''/market_chart'') params
            (coins_fetchMarketChart E h coinId params)"
    unfolding p using i by (rule chart_requested)
  show "''days=1''
          \<in> set (split_query (join_with ''&''
               (stringify_fields (props (store (coins_fetchMarketChart E h coinId params)) params))))"
    using a i unfolding p by (intro field_in_query days_field chart_days) simp_all
qed

theorem C5_default_currency_and_days_witness:
  "sent (coins_markets example_env empty_store (JRef 0)) \<noteq> []
   \<and> \<not> nonEmptyString (getp empty_store (JRef 0) ''vs_currency'')
   \<and> sent (coins_markets example_env empty_store (JRef 0)) =
       [\<lparr>path = ''/api/v3/coins/markets?vs_currency=usd'',
          method = ''GET'', host = ''api.coingecko.com'', port = 443\<rparr>]
   \<and> ''vs_currency=usd'' \<in> set (split_query ''vs_currency=usd'')
   \<and> sent (coins_fetchMarketChart example_env empty_store (JStr ''bitcoin'') (JRef 0)) \<noteq> []
   \<and> getp empty_store (JRef 0) ''days'' = JUndefined
   \<and> sent (coins_fetchMarketChart example_env empty_store (JStr ''bitcoin'') (JRef 0)) =
       [\<lparr>path = ''/api/v3/coins/bitcoin/market_chart?vs_currency=usd&days=1'',
          method = ''GET'', host = ''api.coingecko.com'', port = 443\<rparr>]
   \<and> ''vs_currency=usd'' \<in> set (split_query ''vs_currency=usd&days=1'')
   \<and> ''days=1'' \<in> set (split_query ''vs_currency=usd&days=1'')"
proof -
  have s1: "sent (coins_markets example_env empty_store (JRef 0)) \<noteq> []"
    by (simp add: coins_markets_def when_warn_WARN isObject_def Let_def request_sent)
  have v: "\<not> nonEmptyString (getp empty_store (JRef 0) ''vs_currency'')"
    by (simp add: getp_def empty_store_def nonEmptyString_def isString_def)
  have s2: "sent (coins_fetchMarketChart example_env empty_store (JStr ''bitcoin'') (JRef 0)) \<noteq> []"
    by (simp add: coins_fetchMarketChart_def when_warn_WARN isObject_def isString_def
        isStringEmpty_def Let_def request_sent)
  have d: "getp empty_store (JRef 0) ''days'' = JUndefined"
    by (simp add: getp_def empty_store_def)
  have q1: "join_with ''&''
      (stringify_fields (props (store (coins_markets example_env empty_store (JRef 0))) (JRef 0)))
      = ''vs_currency=usd''"
    by code_simp
  have q2: "join_with ''&''
      (stringify_fields
         (props (store (coins_fetchMarketChart example_env empty_store (JStr ''bitcoin'') (JRef 0)))
            (JRef 0)))
      = ''vs_currency=usd&days=1''"
    by code_simp
  have t: "toStr (JStr ''bitcoin'') = ''bitcoin''"
    by simp
  note c = C5_default_currency_and_days [of example_env empty_store "JRef 0" "JStr ''bitcoin''"]
  have m: "requested example_env ''/coins/markets'' (JRef 0)
             (coins_markets example_env empty_store (JRef 0))
           \<and> ''vs_currency=usd'' \<in> set (split_query ''vs_currency=usd'')"
    using c s1 v unfolding q1 by blast
  have k: "requested example_env (''/coins/'' @ toStr (JStr ''bitcoin'') @ ''/market_chart'') (JRef 0)
             (coins_fetchMarketChart example_env empty_store (JStr ''bitcoin'') (JRef 0))
           \<and> ''vs_currency=usd'' \<in> set (split_query ''vs_currency=usd&days=1'')
           \<and> ''days=1'' \<in> set (split_query ''vs_currency=usd&days=1'')"
    using c s2 v d unfolding q2 by blast
  have p1: "sent (coins_markets example_env empty_store (JRef 0)) =
       [\<lparr>path = ''/api/v3/coins/markets?vs_currency=usd'',
          method = ''GET'', host = ''api.coingecko.com'', port = 443\<rparr>]"
    using m unfolding requested_def q1 by (simp add: example_env_def example_constants_def)
  have p2: "sent (coins_fetchMarketChart example_env empty_store (JStr ''bitcoin'') (JRef 0)) =
       [\<lparr>path = ''/api/v3/coins/bitcoin/market_chart?vs_currency=usd&days=1'',
          method = ''GET'', host = ''api.coingecko.com'', port = 443\<rparr>]"
    using k unfolding requested_def q2 by (simp add: example_env_def example_constants_def)
  show ?thesis
    using s1 v s2 d m k p1 p2 by blast
qed



text \<open>
  Claim C7. For a plain key-value mapping handed to the builder, in which every key has
  one value and none is a sequence (the spec names strings, numbers and booleans as the
  values), the query string is exactly the pairs of the mapping, each as the
  percent-encoded key, \<open>=\<close>, and the percent-encoded text of the value, joined by
  \<open>&\<close> in the order in which the mapping lists its keys.
\<close>

theorem C7_query_string_pairs:
  assumes "isObject params"
    and "\<forall>kv \<in> set (props h params). \<not> isArray (snd kv)"
  shows "path (buildRequestOptions K h m p params) =
           ''/api/v'' @ API_VERSION K @ p @ ''?'' @
           join_with ''&''
             (map (\<lambda>kv. qsEscape (fst kv) @ ''='' @ qsEscape (stringifyPrimitive (snd kv)))
                (props h params))"
proof -
  obtain a where p: "params = JRef a"
    using assms(1) isObject_iff by blast
  have "stringify_fields (h a) =
          map (\<lambda>kv. qsEscape (fst kv) @ ''='' @ qsEscape (stringifyPrimitive (snd kv))) (h a)"
    using assms(2) unfolding p by (intro stringify_fields_plain) (simp add: props_def)
  then show ?thesis
    unfolding p by (simp add: build_path_object props_def)
qed

theorem C7_query_string_pairs_witness:
  "isObject (JRef 0)
   \<and> list_all (\<lambda>kv. \<not> isArray (snd kv)) (props query_store (JRef 0))
   \<and> path (buildRequestOptions example_constants query_store ''GET'' ''/coins/markets'' (JRef 0)) =
       ''/api/v3/coins/markets?vs_currency=usd&price%20change=1h%2C24h&page=2&sparkline=false''"
proof -
  have o: "isObject (JRef 0)"
    by (simp add: isObject_def)
  have a: "\<forall>kv \<in> set (props query_store (JRef 0)). \<not> isArray (snd kv)"
    by (simp add: props_def query_store_def isArray_def)
  have e: "map (\<lambda>kv. qsEscape (fst kv) @ ''='' @ qsEscape (stringifyPrimitive (snd kv)))
             (props query_store (JRef 0)) =
           [''vs_currency=usd'', ''price%20change=1h%2C24h'', ''page=2'', ''sparkline=false'']"
    by (simp add: props_def query_store_def qsEscape_def escape_char_def unreserved_def hexdigit_def)
  have "path (buildRequestOptions example_constants query_store ''GET'' ''/coins/markets'' (JRef 0)) =
          ''/api/v'' @ API_VERSION example_constants @ ''/coins/markets'' @ ''?'' @
          join_with ''&''
            [''vs_currency=usd'', ''price%20change=1h%2C24h'', ''page=2'', ''sparkline=false'']"
    using C7_query_string_pairs [OF o a, of example_constants "''GET''" "''/coins/markets''"] unfolding e .
  then have "path (buildRequestOptions example_constants query_store ''GET'' ''/coins/markets'' (JRef 0)) =
       ''/api/v3/coins/markets?vs_currency=usd&price%20change=1h%2C24h&page=2&sparkline=false''"
    by (simp add: example_constants_def)
  moreover have "list_all (\<lambda>kv. \<not> isArray (snd kv)) (props query_store (JRef 0))"
    using a by (simp add: list_all_iff)
  ultimately show ?thesis
    using o by blast
qed

text \<open>
  Claim C8 says that an empty mapping, like an absent one, gives a path without query
  string and without \<open>?\<close>. An empty object is still an object: its serialization is
  the empty string, which is not \<open>undefined\<close>, and the path ends in \<open>?\<close>.
\<close>

theorem C8_empty_mapping_counterexample:
  "isObject (JRef 0)
   \<and> props empty_store (JRef 0) = []
   \<and> path (buildRequestOptions example_constants empty_store ''GET'' ''/coins'' (JRef 0))
       = ''/api/v3/coins?''
   \<and> path (buildRequestOptions example_constants empty_store ''GET'' ''/coins'' (JRef 0))
       \<noteq> ''/api/v3/coins''"
  by (simp add: build_path_object props_def empty_store_def example_constants_def
      stringify_fields_def isObject_def)

text \<open>
  Claim C8, for an absent mapping. The path the builder produces always begins with
  \<open>/api/v\<close>, the version and the endpoint template, and when \<open>params\<close> is absent
  it is exactly that, with nothing appended.
\<close>

theorem C8_path_prefix_and_absent_params:
  "startsWith (path (buildRequestOptions K h m p params)) (''/api/v'' @ API_VERSION K @ p)
   \<and> path (buildRequestOptions K h m p JUndefined) = ''/api/v'' @ API_VERSION K @ p"
  by (simp add: buildRequestOptions_def startsWith_def isObject_def)

text \<open>
  Claim C9. \<open>coins.markets\<close> and \<open>coins.fetchMarketChart\<close> write to the object their
  caller passed. After a call that got past its checks to its request, the caller's
  object holds \<open>vs_currency = 'usd'\<close> when that entry was absent, not a string or
  empty; \<open>ids\<close> as the comma-joined string when it was an array; \<open>days = 1\<close> when it
  was undefined. No other object of the store has changed.
\<close>

theorem C9_params_mutated_in_place:
  "(sent (coins_markets E h params) \<noteq> [] \<longrightarrow>
      (\<not> nonEmptyString (getp h params ''vs_currency'') \<longrightarrow>
         getp (store (coins_markets E h params)) params ''vs_currency'' = JStr ''usd'')
      \<and> (\<forall>xs. getp h params ''ids'' = JArr xs \<longrightarrow>
           getp (store (coins_markets E h params)) params ''ids'' = JStr (array_join (JArr xs) '',''))
      \<and> (\<forall>b. JRef b \<noteq> params \<longrightarrow> store (coins_markets E h params) b = h b))
   \<and> (sent (coins_fetchMarketChart E h coinId params) \<noteq> [] \<longrightarrow>
      (\<not> nonEmptyString (getp h params ''vs_currency'') \<longrightarrow>
         getp (store (coins_fetchMarketChart E h coinId params)) params ''vs_currency'' = JStr ''usd'')
      \<and> (getp h params ''days'' = JUndefined \<longrightarrow>
           getp (store (coins_fetchMarketChart E h coinId params)) params ''days'' = JNum ''1'')
      \<and> (\<forall>b. JRef b \<noteq> params \<longrightarrow> store (coins_fetchMarketChart E h coinId params) b = h b))"
proof (intro conjI impI allI)
  assume "sent (coins_markets E h params) \<noteq> []"
  then obtain a where p: "params = JRef a"
    using coins_markets_sent_object isObject_iff by blast
  {
    assume "\<not> nonEmptyString (getp h params ''vs_currency'')"
    then show "getp (store (coins_markets E h params)) params ''vs_currency'' = JStr ''usd''"
      unfolding p by (rule coins_markets_vs)
  }
  {
    fix xs assume "getp h params ''ids'' = JArr xs"
    then show "getp (store (coins_markets E h params)) params ''ids'' = JStr (array_join (JArr xs) '','')"
      unfolding p by (rule coins_markets_ids)
  }
  {
    fix b assume "JRef b \<noteq> params"
    then show "store (coins_markets E h params) b = h b"
      unfolding p by (simp add: coins_markets_frame)
  }
next
  assume "sent (coins_fetchMarketChart E h coinId params) \<noteq> []"
  then obtain a where p: "params = JRef a" and i: "nonEmptyString coinId"
    using chart_sent isObject_iff by blast
  {
    assume "\<not> nonEmptyString (getp h params ''vs_currency'')"
    then show "getp (store (coins_fetchMarketChart E h coinId params)) params ''vs_currency'' = JStr ''usd''"
      unfolding p using i by (intro chart_vs)
  }
  {
    assume "getp h params ''days'' = JUndefined"
    then show "getp (store (coins_fetchMarketChart E h coinId params)) params ''days'' = JNum ''1''"
      unfolding p using i by (intro chart_days)
  }
  {
    fix b assume "JRef b \<noteq> params"
    then show "store (coins_fetchMarketChart E h coinId params) b = h b"
      unfolding p by (simp add: chart_frame)
  }
qed

theorem C9_params_mutated_in_place_witness:
  "sent (coins_markets example_env ids_store (JRef 0)) \<noteq> []
   \<and> ids_store 0 = [(''ids'', JArr [JStr ''bitcoin'', JStr ''ethereum''])]
   \<and> store (coins_markets example_env ids_store (JRef 0)) 0 =
       [(''ids'', JStr ''bitcoin,ethereum''), (''vs_currency'', JStr ''usd'')]
   \<and> getp (store (coins_markets example_env ids_store (JRef 0))) (JRef 0) ''vs_currency'' = JStr ''usd''
   \<and> getp (store (coins_markets example_env ids_store (JRef 0))) (JRef 0) ''ids''
       = JStr ''bitcoin,ethereum''
   \<and> sent (coins_fetchMarketChart example_env empty_store (JStr ''bitcoin'') (JRef 0)) \<noteq> []
   \<and> getp (store (coins_fetchMarketChart example_env empty_store (JStr ''bitcoin'') (JRef 0)))
         (JRef 0) ''vs_currency'' = JStr ''usd''
   \<and> getp (store (coins_fetchMarketChart example_env empty_store (JStr ''bitcoin'') (JRef 0)))
         (JRef 0) ''days'' = JNum ''1''"
proof -
  have s1: "sent (coins_markets example_env ids_store (JRef 0)) \<noteq> []"
    by (simp add: coins_markets_def when_warn_WARN isObject_def Let_def request_sent)
  have v1: "\<not> nonEmptyString (getp ids_store (JRef 0) ''vs_currency'')"
    by (simp add: getp_def ids_store_def nonEmptyString_def isString_def)
  have g: "getp ids_store (JRef 0) ''ids'' = JArr [JStr ''bitcoin'', JStr ''ethereum'']"
    by (simp add: getp_def ids_store_def)
  have j: "array_join (JArr [JStr ''bitcoin'', JStr ''ethereum'']) '','' = ''bitcoin,ethereum''"
    by (simp add: array_join_def)
  have s2: "sent (coins_fetchMarketChart example_env empty_store (JStr ''bitcoin'') (JRef 0)) \<noteq> []"
    by (simp add: coins_fetchMarketChart_def when_warn_WARN isObject_def isString_def
        isStringEmpty_def Let_def request_sent)
  have v2: "\<not> nonEmptyString (getp empty_store (JRef 0) ''vs_currency'')"
    by (simp add: getp_def empty_store_def nonEmptyString_def isString_def)
  have d: "getp empty_store (JRef 0) ''days'' = JUndefined"
    by (simp add: getp_def empty_store_def)
  have i: "ids_store 0 = [(''ids'', JArr [JStr ''bitcoin'', JStr ''ethereum''])]"
    by (simp add: ids_store_def)
  have f: "store (coins_markets example_env ids_store (JRef 0)) 0 =
       [(''ids'', JStr ''bitcoin,ethereum''), (''vs_currency'', JStr ''usd'')]"
    by code_simp
  show ?thesis
    using s1 v1 g s2 v2 d i f
      C9_params_mutated_in_place [of example_env ids_store "JRef 0" "JStr ''bitcoin''"]
      C9_params_mutated_in_place [of example_env empty_store "JRef 0" "JStr ''bitcoin''"]
    by (simp add: j)
qed

text \<open>
  Claim C10. When the \<open>params\<close> argument of the builder is not a plain object (a
  string, a number, a boolean, an array), the builder returns what it returns for an
  absent argument: the path has no query string. The builder has no error result.
\<close>

theorem C10_non_object_params_ignored:
  assumes "\<not> isObject params"
  shows "buildRequestOptions K h m p params = buildRequestOptions K h m p JUndefined
     \<and> path (buildRequestOptions K h m p params) = ''/api/v'' @ API_VERSION K @ p"
  using assms by (simp add: build_non_object isObject_def)

theorem C10_non_object_params_ignored_witness:
  "\<not> isObject (JStr ''usd'') \<and> \<not> isObject (JNum ''7'') \<and> \<not> isObject (JBool True)
   \<and> \<not> isObject (JArr [JStr ''bitcoin''])
   \<and> path (buildRequestOptions example_constants empty_store ''GET'' ''/coins'' (JStr ''usd''))
       = ''/api/v3/coins''
   \<and> path (buildRequestOptions example_constants empty_store ''GET'' ''/coins'' (JNum ''7''))
       = ''/api/v3/coins''
   \<and> path (buildRequestOptions example_constants empty_store ''GET'' ''/coins'' (JBool True))
       = ''/api/v3/coins''
   \<and> path (buildRequestOptions example_constants empty_store ''GET'' ''/coins'' (JArr [JStr ''bitcoin'']))
       = ''/api/v3/coins''"
proof -
  have s: "\<not> isObject (JStr ''usd'')" and n: "\<not> isObject (JNum ''7'')"
    and b: "\<not> isObject (JBool True)" and a: "\<not> isObject (JArr [JStr ''bitcoin''])"
    by (simp_all add: isObject_def)
  have v: "''/api/v'' @ API_VERSION example_constants @ ''/coins'' = ''/api/v3/coins''"
    by (simp add: example_constants_def)
  show ?thesis
    using s n b a
      C10_non_object_params_ignored [OF s, THEN conjunct2, of example_constants empty_store "''GET''" "''/coins''"]
      C10_non_object_params_ignored [OF n, THEN conjunct2, of example_constants empty_store "''GET''" "''/coins''"]
      C10_non_object_params_ignored [OF b, THEN conjunct2, of example_constants empty_store "''GET''" "''/coins''"]
      C10_non_object_params_ignored [OF a, THEN conjunct2, of example_constants empty_store "''GET''" "''/coins''"]
    unfolding v by blast
qed

end
